theory Spec2Isabelle
  imports Complex_Main "HOL-Library.Sublist"
begin

section \<open>Values of the host language\<close>

text \<open>
  The library is written in JavaScript and is dynamically typed: a variable may hold a
  number, a string, an array or \<open>undefined\<close>, and the code branches on \<open>typeof\<close>,
  \<open>Array.isArray\<close> and \<open>instanceof\<close>. The model keeps that: \<open>js\<close> is the type of
  the plain values the code handles.

  A number of the language is an IEEE double. The code inspects a number only through
  \<open>Number.isInteger\<close>, so a finite number is modelled by the rational it denotes (every
  finite double is a rational; \<open>5\<close> and \<open>5.0\<close> are the same number, and \<open>-0\<close> is
  \<open>Finite 0\<close>), and the three non-finite doubles are constructors of their own.
\<close>

datatype number = Finite rat | NaN | PosInfinity | NegInfinity

datatype js =
    JUndefined
  | JNull
  | JBool bool
  | JNum number
  | JStr string
  | JArr "js list"

text \<open>\<open>typeof v\<close>; an array and \<open>null\<close> are objects.\<close>

fun typeof :: "js \<Rightarrow> string" where
  "typeof JUndefined = ''undefined''"
| "typeof JNull = ''object''"
| "typeof (JBool b) = ''boolean''"
| "typeof (JNum n) = ''number''"
| "typeof (JStr s) = ''string''"
| "typeof (JArr xs) = ''object''"

fun Array_isArray :: "js \<Rightarrow> bool" where
  "Array_isArray (JArr xs) = True"
| "Array_isArray v = False"

text \<open>
  \<open>Number.isInteger(v)\<close>: false when \<open>v\<close> is not a number or is not finite, otherwise
  whether truncating \<open>v\<close> leaves it unchanged.
\<close>

fun Number_isInteger :: "js \<Rightarrow> bool" where
  "Number_isInteger (JNum (Finite q)) = (of_int \<lfloor>q\<rfloor> = q)"
| "Number_isInteger v = False"

section \<open>Errors\<close>

text \<open>
  Every \<open>throw\<close> of the source is a constructor, named after the message it carries; a
  value interpolated into the message is the constructor's argument.
  \<^item> \<open>Invalid_type t\<close>: \<open>Invalid type: ${type}\<close>, thrown by \<open>Type\<close>;
  \<^item> \<open>Lists_must_contain_only_strings\<close>: \<open>Lists in pyson must contain only strings\<close>;
  \<^item> \<open>Invalid_pyson_typeof t\<close>: \<open>Invalid pyson type: ${typeof value}\<close>, thrown by
    \<open>Value\<close>;
  \<^item> \<open>Invalid_arguments_for_NamedValue\<close>, \<open>Invalid_argument_for_changeValue\<close>;
  \<^item> \<open>Entries_cannot_contain_newlines\<close>: \<open>Pyson entries cannot contain newlines\<close>;
  \<^item> \<open>Invalid_pyson_type t\<close>: \<open>Invalid pyson type: ${type}\<close>, thrown by the
    \<open>default\<close> branch of \<open>parsePysonEntry\<close>;
  \<^item> \<open>Duplicate_names_in_pysonToList\<close>: \<open>Duplicate name(s) found in pysonToList\<close>;
  \<^item> \<open>TypeError m\<close>: a \<open>TypeError\<close> raised by the language itself (a call of
    something that is not a function, a property read on \<open>undefined\<close>, an assignment to
    a \<open>const\<close> binding), with the engine's message.
\<close>

datatype error =
    Invalid_type string
  | Lists_must_contain_only_strings
  | Invalid_pyson_typeof string
  | Invalid_arguments_for_NamedValue
  | Invalid_argument_for_changeValue
  | Entries_cannot_contain_newlines
  | Invalid_pyson_type js
  | Duplicate_names_in_pysonToList
  | TypeError string

section \<open>Type\<close>

text \<open>
  \<open>class Type\<close>: the constructor accepts the four tags and throws on anything else;
  \<open>toString\<close> returns the tag.
\<close>

record Type =
  tag :: string

definition Type_new :: "string \<Rightarrow> error + Type" where
  "Type_new t =
     (if \<not> List.member [''int'', ''float'', ''str'', ''list''] t then Inl (Invalid_type t)
      else Inr \<lparr>tag = t\<rparr>)"

definition Type_toString :: "Type \<Rightarrow> string" where
  "Type_toString t = tag t"

section \<open>Value\<close>

text \<open>
  \<open>class Value\<close> has the fields \<open>type\<close> and \<open>value\<close>; they are \<open>vtype\<close> and
  \<open>payload\<close> here. The constructor classifies the payload in the order of the source:
  a number (\<open>typeof value === "number"\<close>), a string, an array, anything else.
\<close>

record Value =
  payload :: js
  vtype :: Type

fun Value_new :: "js \<Rightarrow> error + Value" where
  "Value_new (JNum n) =
     (case Type_new (if Number_isInteger (JNum n) then ''int'' else ''float'') of
        Inl e \<Rightarrow> Inl e
      | Inr t \<Rightarrow> Inr \<lparr>payload = JNum n, vtype = t\<rparr>)"
| "Value_new (JStr s) =
     (case Type_new ''str'' of
        Inl e \<Rightarrow> Inl e
      | Inr t \<Rightarrow> Inr \<lparr>payload = JStr s, vtype = t\<rparr>)"
| "Value_new (JArr items) =
     (if list_ex (\<lambda>item. typeof item \<noteq> ''string'') items
      then Inl Lists_must_contain_only_strings
      else (case Type_new ''list'' of
              Inl e \<Rightarrow> Inl e
            | Inr t \<Rightarrow> Inr \<lparr>payload = JArr items, vtype = t\<rparr>))"
| "Value_new v = Inl (Invalid_pyson_typeof (typeof v))"

definition typeStr :: "Value \<Rightarrow> string" where
  "typeStr v = Type_toString (vtype v)"

definition isInt :: "Value \<Rightarrow> bool" where
  "isInt v = (tag (vtype v) = ''int'')"

definition isFloat :: "Value \<Rightarrow> bool" where
  "isFloat v = (tag (vtype v) = ''float'')"

definition isStr :: "Value \<Rightarrow> bool" where
  "isStr v = (tag (vtype v) = ''str'')"

definition isList :: "Value \<Rightarrow> bool" where
  "isList v = (tag (vtype v) = ''list'')"

section \<open>Strings and conversions of the host language\<close>

text \<open>
  A string is a list of 8-bit characters. The line feed is \<open>CHR 0x0A\<close>.

  \<open>s.includes(sub)\<close>: whether \<open>sub\<close> occurs in \<open>s\<close>.
\<close>

fun String_includes :: "string \<Rightarrow> string \<Rightarrow> bool" where
  "String_includes [] sub = (sub = [])"
| "String_includes (c # cs) sub = (prefix sub (c # cs) \<or> String_includes cs sub)"

text \<open>
  \<open>s.split(sep)\<close>: the pieces of \<open>s\<close> between the occurrences of \<open>sep\<close>, found
  from the left and not overlapping; an empty \<open>s\<close> gives one empty piece. With an empty
  separator the pieces are the characters. \<open>split_from sep piece rest\<close> scans \<open>rest\<close>
  with \<open>piece\<close> the part of the current piece already read.
\<close>

fun split_from :: "string \<Rightarrow> string \<Rightarrow> string \<Rightarrow> string list" where
  "split_from sep piece [] = [piece]"
| "split_from sep piece (c # cs) =
     (if prefix sep (c # cs)
      then piece # split_from sep [] (drop (length sep - 1) cs)
      else split_from sep (piece @ [c]) cs)"

definition String_split :: "string \<Rightarrow> string \<Rightarrow> string list" where
  "String_split s sep = (if sep = [] then map (\<lambda>c. [c]) s else split_from sep [] s)"

text \<open>\<open>s.split(sep, limit)\<close>: the first \<open>limit\<close> pieces of \<open>s.split(sep)\<close>.\<close>

definition String_split_limit :: "string \<Rightarrow> string \<Rightarrow> nat \<Rightarrow> string list" where
  "String_split_limit s sep limit = take limit (String_split s sep)"

text \<open>\<open>xs.join(sep)\<close> on an array of strings.\<close>

fun Array_join :: "string \<Rightarrow> string list \<Rightarrow> string" where
  "Array_join sep [] = []"
| "Array_join sep [x] = x"
| "Array_join sep (x # y # ys) = x @ sep @ Array_join sep (y # ys)"

text \<open>
  The decimal digits of a natural number, and the text of a number. An integer of at most
  \<open>2 ^ 53\<close> in absolute value is written with all its digits; the text of the other
  finite numbers (the shortest decimal that reads back as the same double) is not
  modelled and is the parameter \<open>digits\<close>.
\<close>

fun show_nat :: "nat \<Rightarrow> string" where
  "show_nat n =
     (if n < 10 then [char_of (48 + n)] else show_nat (n div 10) @ [char_of (48 + n mod 10)])"

definition show_int :: "int \<Rightarrow> string" where
  "show_int i = (if i < 0 then ''-'' @ show_nat (nat (- i)) else show_nat (nat i))"

fun Number_toString :: "(rat \<Rightarrow> string) \<Rightarrow> number \<Rightarrow> string" where
  "Number_toString digits NaN = ''NaN''"
| "Number_toString digits PosInfinity = ''Infinity''"
| "Number_toString digits NegInfinity = ''-Infinity''"
| "Number_toString digits (Finite q) =
     (if of_int \<lfloor>q\<rfloor> = q \<and> \<bar>q\<bar> \<le> 2 ^ 53 then show_int \<lfloor>q\<rfloor> else digits q)"

text \<open>
  The conversion of a value to a string that a template literal applies. An array is its
  elements joined by commas, \<open>undefined\<close> and \<open>null\<close> elements being empty.
\<close>

fun ToString :: "(rat \<Rightarrow> string) \<Rightarrow> js \<Rightarrow> string" where
  "ToString digits JUndefined = ''undefined''"
| "ToString digits JNull = ''null''"
| "ToString digits (JBool b) = (if b then ''true'' else ''false'')"
| "ToString digits (JNum n) = Number_toString digits n"
| "ToString digits (JStr s) = s"
| "ToString digits (JArr xs) =
     Array_join '','' (map (\<lambda>x. if x = JUndefined \<or> x = JNull then [] else ToString digits x) xs)"

text \<open>
  The double nearest to a rational, ties going to the even significand: the number that
  the language makes of a numeral. \<open>floor_log2 a\<close> is the exponent \<open>e\<close> with
  \<open>2 ^ e \<le> a < 2 ^ (e + 1)\<close> for a positive \<open>a\<close>. A double has 53 significant bits
  and exponents from \<open>-1022\<close>, below which the spacing stays \<open>2 ^ -1074\<close>; what rounds
  to \<open>2 ^ 1024\<close> or more is infinite.
\<close>

function bit_length :: "int \<Rightarrow> int" where
  "bit_length n = (if n \<le> 0 then 0 else 1 + bit_length (n div 2))"
  by pat_completeness auto
termination
  by (relation "measure nat") auto

definition floor_log2 :: "rat \<Rightarrow> int" where
  "floor_log2 a =
     (let (p, q) = quotient_of a;
          k = bit_length p - bit_length q
      in if 2 powi k \<le> a then k else k - 1)"

definition round_half_even :: "rat \<Rightarrow> int" where
  "round_half_even x =
     (let f = \<lfloor>x\<rfloor>; d = x - of_int f
      in if d < 1 / 2 then f else if 1 / 2 < d then f + 1 else if even f then f else f + 1)"

definition to_double :: "rat \<Rightarrow> number" where
  "to_double q =
     (if q = 0 then Finite 0
      else
        let a = \<bar>q\<bar>;
            e = max (floor_log2 a) (- 1022);
            ulp = 2 powi (e - 52);
            r = of_int (round_half_even (a / ulp)) * ulp
        in if 2 ^ 1024 \<le> r then (if q < 0 then NegInfinity else PosInfinity)
           else Finite (if q < 0 then - r else r))"

text \<open>
  \<open>parseInt(s, 10)\<close> and \<open>parseFloat(s)\<close> on a string: leading white space is
  skipped, a sign is read, then the longest prefix that is a numeral; without one the
  result is \<open>NaN\<close>, and neither ever throws. The value of the numeral is rounded to a
  double.
\<close>

definition is_white_space :: "char \<Rightarrow> bool" where
  "is_white_space c = List.member [9, 10, 11, 12, 13, 32, 160 :: nat] (of_char c)"

definition is_digit :: "char \<Rightarrow> bool" where
  "is_digit c = (48 \<le> (of_char c :: nat) \<and> (of_char c :: nat) \<le> 57)"

definition digits_value :: "string \<Rightarrow> int" where
  "digits_value ds = foldl (\<lambda>a c. 10 * a + (of_char c - 48)) 0 ds"

definition read_sign :: "string \<Rightarrow> int \<times> string" where
  "read_sign s =
     (case s of
        [] \<Rightarrow> (1, s)
      | c # cs \<Rightarrow> if c = CHR ''-'' then (- 1, cs) else if c = CHR ''+'' then (1, cs) else (1, s))"

definition parseInt :: "string \<Rightarrow> number" where
  "parseInt s =
     (let (sign, r) = read_sign (dropWhile is_white_space s);
          z = takeWhile is_digit r
      in if z = [] then NaN else to_double (of_int (sign * digits_value z)))"

definition read_exponent :: "string \<Rightarrow> int" where
  "read_exponent s =
     (case s of
        [] \<Rightarrow> 0
      | c # cs \<Rightarrow>
          if c = CHR ''e'' \<or> c = CHR ''E'' then
            (let (sign, r) = read_sign cs; z = takeWhile is_digit r
             in if z = [] then 0 else sign * digits_value z)
          else 0)"

definition parseFloat :: "string \<Rightarrow> number" where
  "parseFloat s =
     (let (sign, r) = read_sign (dropWhile is_white_space s)
      in if prefix ''Infinity'' r then (if sign < 0 then NegInfinity else PosInfinity)
         else
           let d1 = takeWhile is_digit r;
               r1 = dropWhile is_digit r;
               (d2, r2) = (case r1 of
                             [] \<Rightarrow> ([], r1)
                           | c # cs \<Rightarrow>
                               if c = CHR ''.'' then (takeWhile is_digit cs, dropWhile is_digit cs)
                               else ([], r1))
           in if d1 = [] \<and> d2 = [] then NaN
              else to_double (of_int sign
                     * (of_int (digits_value d1) + of_int (digits_value d2) / 10 ^ length d2)
                     * 10 powi read_exponent r2))"

section \<open>Encoding a Value\<close>

text \<open>
  \<open>Value.pysonStr\<close>. For an array payload the source evaluates
  \<open>`(*)`.join(this.value)\<close>: the property \<open>join\<close> is looked up on the string
  \<open>(*)\<close>, a string has no such property, and calling the \<open>undefined\<close> that the lookup
  gives throws a \<open>TypeError\<close>. For the other payloads the result is the template
  \<open>${this.type}:${this.value}\<close>. \<open>Value.toString\<close> returns \<open>pysonStr()\<close>.
\<close>

definition Value_pysonStr :: "(rat \<Rightarrow> string) \<Rightarrow> Value \<Rightarrow> error + string" where
  "Value_pysonStr digits v =
     (if Array_isArray (payload v) then Inl (TypeError ''(*).join is not a function'')
      else Inr (Type_toString (vtype v) @ '':'' @ ToString digits (payload v)))"

definition Value_toString :: "(rat \<Rightarrow> string) \<Rightarrow> Value \<Rightarrow> error + string" where
  "Value_toString digits v = Value_pysonStr digits v"

section \<open>NamedValue\<close>

text \<open>
  What is handed to \<open>NamedValue\<close> as a value is tested with \<open>instanceof Value\<close>: it
  is either an instance of the class or some plain value. The fields \<open>name\<close> and
  \<open>value\<close> of the class are \<open>name\<close> and \<open>held\<close> here. The constructor checks both
  arguments; \<open>changeName\<close>, \<open>swapName\<close> and \<open>swapValue\<close> assign what they are given,
  and \<open>changeValue\<close> checks its argument first. The methods that mutate the object
  return the updated object, the swaps together with the previous content.
\<close>

datatype ref = Plain js | Instance Value

fun instanceof_Value :: "ref \<Rightarrow> bool" where
  "instanceof_Value (Instance v) = True"
| "instanceof_Value (Plain v) = False"

record NamedValue =
  name :: js
  held :: ref

definition NamedValue_new :: "js \<Rightarrow> ref \<Rightarrow> error + NamedValue" where
  "NamedValue_new n v =
     (if typeof n \<noteq> ''string'' \<or> \<not> instanceof_Value v then Inl Invalid_arguments_for_NamedValue
      else Inr \<lparr>name = n, held = v\<rparr>)"

definition changeName :: "NamedValue \<Rightarrow> js \<Rightarrow> NamedValue" where
  "changeName nv newName = nv\<lparr>name := newName\<rparr>"

definition swapName :: "NamedValue \<Rightarrow> js \<Rightarrow> js \<times> NamedValue" where
  "swapName nv newName = (let oldName = name nv in (oldName, nv\<lparr>name := newName\<rparr>))"

definition changeValue :: "NamedValue \<Rightarrow> ref \<Rightarrow> error + NamedValue" where
  "changeValue nv newValue =
     (if \<not> instanceof_Value newValue then Inl Invalid_argument_for_changeValue
      else Inr (nv\<lparr>held := newValue\<rparr>))"

definition swapValue :: "NamedValue \<Rightarrow> ref \<Rightarrow> ref \<times> NamedValue" where
  "swapValue nv newValue = (let oldValue = held nv in (oldValue, nv\<lparr>held := newValue\<rparr>))"

definition toTuple :: "NamedValue \<Rightarrow> js \<times> ref" where
  "toTuple nv = (name nv, held nv)"

text \<open>
  \<open>NamedValue.pysonStr\<close> is the template \<open>${this.name}:${this.value}\<close>; the
  conversion of an instance of \<open>Value\<close> to a string is its \<open>toString\<close>.
\<close>

definition NamedValue_pysonStr :: "(rat \<Rightarrow> string) \<Rightarrow> NamedValue \<Rightarrow> error + string" where
  "NamedValue_pysonStr digits nv =
     (case (case held nv of
              Instance v \<Rightarrow> Value_toString digits v
            | Plain p \<Rightarrow> Inr (ToString digits p)) of
        Inl e \<Rightarrow> Inl e
      | Inr s \<Rightarrow> Inr (ToString digits (name nv) @ '':'' @ s))"

text \<open>
  The class also declares a method \<open>name()\<close>, but the constructor stores the name in
  the property \<open>name\<close> of the object itself, which hides the method: \<open>nv.name()\<close>
  calls the stored name. No value of \<open>js\<close> is a function, and calling one throws.
\<close>

definition call :: "js \<Rightarrow> error + js" where
  "call f = Inl (TypeError ''nv.name is not a function'')"

definition NamedValue_name :: "NamedValue \<Rightarrow> error + js" where
  "NamedValue_name nv = call (name nv)"

section \<open>Parsing an entry\<close>

text \<open>
  \<open>const [name, type, value] = entry.split(":", 2)\<close> binds each variable to the piece
  at its index, or to \<open>undefined\<close> when the array is shorter: a field is a string or
  \<open>undefined\<close> (\<open>None\<close>).
\<close>

type_synonym field = "string option"

definition element :: "string list \<Rightarrow> nat \<Rightarrow> field" where
  "element xs i = (if i < length xs then Some (xs ! i) else None)"

fun js_of_field :: "field \<Rightarrow> js" where
  "js_of_field None = JUndefined"
| "js_of_field (Some s) = JStr s"

text \<open>The conversion to a string that \<open>parseInt\<close> and \<open>parseFloat\<close> apply to a field.\<close>

fun field_ToString :: "field \<Rightarrow> string" where
  "field_ToString None = ''undefined''"
| "field_ToString (Some s) = s"

text \<open>
  The three variables are declared \<open>const\<close>. An assignment \<open>value = e\<close> evaluates
  \<open>e\<close> and then throws a \<open>TypeError\<close>, since the binding cannot be assigned.
\<close>

definition assign_const :: "js \<Rightarrow> error + js" where
  "assign_const v = Inl (TypeError ''Assignment to constant variable.'')"

text \<open>\<open>value.split("(*)")\<close>: reading a property of \<open>undefined\<close> throws.\<close>

fun field_split :: "field \<Rightarrow> string \<Rightarrow> error + js" where
  "field_split None sep = Inl (TypeError ''Cannot read properties of undefined (reading split)'')"
| "field_split (Some s) sep = Inr (JArr (map JStr (String_split s sep)))"

text \<open>
  The \<open>switch\<close> on the type tag: the cases are \<open>"int"\<close>, \<open>"float"\<close> and \<open>"list"\<close>,
  and every other tag, \<open>undefined\<close> included, is the \<open>default\<close>. The result is the
  content of \<open>value\<close> after the statement.
\<close>

definition switch_type :: "field \<Rightarrow> field \<Rightarrow> error + js" where
  "switch_type type val =
     (if type = Some ''int'' then
        assign_const (JNum (parseInt (field_ToString val)))
      else if type = Some ''float'' then
        assign_const (JNum (parseFloat (field_ToString val)))
      else if type = Some ''list'' then
        (case field_split val ''(*)'' of Inl e \<Rightarrow> Inl e | Inr parts \<Rightarrow> assign_const parts)
      else Inl (Invalid_pyson_type (js_of_field type)))"

definition parsePysonEntry :: "string \<Rightarrow> error + NamedValue" where
  "parsePysonEntry entry =
     (if String_includes entry [CHR 0x0A] then Inl Entries_cannot_contain_newlines
      else
        let fields = String_split_limit entry '':'' 2;
            name = element fields 0;
            type = element fields 1;
            val = element fields 2
        in case switch_type type val of
             Inl e \<Rightarrow> Inl e
           | Inr val' \<Rightarrow>
               (case Value_new val' of
                  Inl e \<Rightarrow> Inl e
                | Inr v \<Rightarrow> NamedValue_new (js_of_field name) (Instance v)))"

section \<open>Documents\<close>

text \<open>\<open>xs.map(f)\<close> with an \<open>f\<close> that may throw: the first throw ends the loop.\<close>

fun map_throwing :: "('a \<Rightarrow> error + 'b) \<Rightarrow> 'a list \<Rightarrow> error + 'b list" where
  "map_throwing f [] = Inr []"
| "map_throwing f (x # xs) =
     (case f x of
        Inl e \<Rightarrow> Inl e
      | Inr y \<Rightarrow> (case map_throwing f xs of Inl e \<Rightarrow> Inl e | Inr ys \<Rightarrow> Inr (y # ys)))"

text \<open>
  \<open>pysonToList\<close>: the non-empty lines are parsed in order; then the names are collected
  with \<open>nv.name()\<close> and the size of their set is compared with the number of entries.
\<close>

definition pysonToList :: "string \<Rightarrow> error + NamedValue list" where
  "pysonToList data =
     (case map_throwing parsePysonEntry
             (filter (\<lambda>line. line \<noteq> []) (String_split data [CHR 0x0A])) of
        Inl e \<Rightarrow> Inl e
      | Inr list \<Rightarrow>
          (case map_throwing NamedValue_name list of
             Inl e \<Rightarrow> Inl e
           | Inr names \<Rightarrow>
               if length (remdups names) \<noteq> length list then Inl Duplicate_names_in_pysonToList
               else Inr list))"

section \<open>Validators\<close>

definition isValidPysonEntry :: "string \<Rightarrow> bool" where
  "isValidPysonEntry entry = (case parsePysonEntry entry of Inl e \<Rightarrow> False | Inr nv \<Rightarrow> True)"

definition isValidPyson :: "string \<Rightarrow> bool" where
  "isValidPyson data =
     list_all (\<lambda>line. line = [] \<or> isValidPysonEntry line) (String_split data [CHR 0x0A])"

section \<open>Properties\<close>

subsection \<open>Helper facts\<close>

lemma Type_new_tags:
  "Type_new ''int'' = Inr \<lparr>tag = ''int''\<rparr>"
  "Type_new ''float'' = Inr \<lparr>tag = ''float''\<rparr>"
  "Type_new ''str'' = Inr \<lparr>tag = ''str''\<rparr>"
  "Type_new ''list'' = Inr \<lparr>tag = ''list''\<rparr>"
  by (simp_all add: Type_new_def)

lemma Value_new_number:
  "Value_new (JNum n) =
     Inr \<lparr>payload = JNum n,
          vtype = \<lparr>tag = (if Number_isInteger (JNum n) then ''int'' else ''float'')\<rparr>\<rparr>"
  by (simp add: Type_new_tags del: Number_isInteger.simps)

lemma third_field_undefined: "element (String_split_limit entry sep 2) 2 = None"
  by (simp add: element_def String_split_limit_def)

text \<open>
  No call of \<open>parsePysonEntry\<close> returns: the third variable of the destructuring is always
  \<open>undefined\<close>, the \<open>int\<close> and \<open>float\<close> branches assign to a constant, the \<open>list\<close>
  branch reads a property of \<open>undefined\<close>, and every other tag is the \<open>default\<close>.
\<close>

lemma switch_type_throws: "switch_type type None \<noteq> Inr v"
  by (simp add: switch_type_def assign_const_def)

lemma parsePysonEntry_throws: "parsePysonEntry entry \<noteq> Inr nv"
proof (cases "String_includes entry [CHR 0x0A]")
  case True
  then show ?thesis by (simp add: parsePysonEntry_def)
next
  case False
  have "switch_type (element (String_split_limit entry '':'' 2) 1) None \<noteq> Inr v" for v
    by (rule switch_type_throws)
  with False show ?thesis
    by (simp add: parsePysonEntry_def Let_def third_field_undefined split: sum.splits)
qed

text \<open>
  The pieces that \<open>split\<close> cuts at a one-character separator: up to the first
  occurrence, then the pieces of the rest. A line \<open>n:t:rest\<close> whose \<open>n\<close> and \<open>t\<close> have
  no colon is thus cut down to \<open>n\<close> and \<open>t\<close> by the limit of two.
\<close>

lemma String_includes_char: "String_includes s [c] = (c \<in> set s)"
  by (induction s) auto

lemma split_from_single:
  "c \<notin> set xs \<Longrightarrow> split_from [c] piece (xs @ c # rest) = (piece @ xs) # split_from [c] [] rest"
  by (induction xs arbitrary: piece) auto

lemma split_two_fields:
  assumes "CHR '':'' \<notin> set n" and "CHR '':'' \<notin> set t"
  shows "String_split_limit (n @ '':'' @ t @ '':'' @ rest) '':'' 2 = [n, t]"
proof -
  have "split_from '':'' [] (n @ CHR '':'' # (t @ CHR '':'' # rest))
      = n # t # split_from '':'' [] rest"
    using assms by (simp add: split_from_single del: split_from.simps)
  then show ?thesis
    by (simp add: String_split_limit_def String_split_def del: split_from.simps)
qed

lemma str_line_rejected:
  assumes "CHR 0x0A \<notin> set n" and "CHR 0x0A \<notin> set raw" and "CHR '':'' \<notin> set n"
  shows "parsePysonEntry (n @ '':str:'' @ raw) = Inl (Invalid_pyson_type (JStr ''str''))"
proof -
  have "String_split_limit (n @ '':'' @ ''str'' @ '':'' @ raw) '':'' 2 = [n, ''str'']"
    using assms by (intro split_two_fields) simp_all
  then have fields: "String_split_limit (n @ '':str:'' @ raw) '':'' 2 = [n, ''str'']"
    by simp
  have "\<not> String_includes (n @ '':str:'' @ raw) [CHR 0x0A]"
    using assms by (simp add: String_includes_char)
  then show ?thesis
    unfolding parsePysonEntry_def Let_def fields
    by (simp add: element_def switch_type_def del: String_includes.simps)
qed

lemma int_line_throws:
  assumes "CHR 0x0A \<notin> set n" and "CHR 0x0A \<notin> set raw" and "CHR '':'' \<notin> set n"
  shows "parsePysonEntry (n @ '':int:'' @ raw)
    = Inl (TypeError ''Assignment to constant variable.'')"
proof -
  have "String_split_limit (n @ '':'' @ ''int'' @ '':'' @ raw) '':'' 2 = [n, ''int'']"
    using assms by (intro split_two_fields) simp_all
  then have fields: "String_split_limit (n @ '':int:'' @ raw) '':'' 2 = [n, ''int'']"
    by simp
  have "\<not> String_includes (n @ '':int:'' @ raw) [CHR 0x0A]"
    using assms by (simp add: String_includes_char)
  then show ?thesis
    unfolding parsePysonEntry_def Let_def fields
    by (simp add: element_def switch_type_def assign_const_def del: String_includes.simps)
qed

lemma float_line_throws:
  assumes "CHR 0x0A \<notin> set n" and "CHR 0x0A \<notin> set raw" and "CHR '':'' \<notin> set n"
  shows "parsePysonEntry (n @ '':float:'' @ raw)
    = Inl (TypeError ''Assignment to constant variable.'')"
proof -
  have "String_split_limit (n @ '':'' @ ''float'' @ '':'' @ raw) '':'' 2 = [n, ''float'']"
    using assms by (intro split_two_fields) simp_all
  then have fields: "String_split_limit (n @ '':float:'' @ raw) '':'' 2 = [n, ''float'']"
    by simp
  have "\<not> String_includes (n @ '':float:'' @ raw) [CHR 0x0A]"
    using assms by (simp add: String_includes_char)
  then show ?thesis
    unfolding parsePysonEntry_def Let_def fields
    by (simp add: element_def switch_type_def assign_const_def del: String_includes.simps)
qed

text \<open>A loop over a function that always throws returns only on the empty list.\<close>

lemma map_throwing_never:
  assumes "\<And>x y. f x \<noteq> Inr y"
  shows "map_throwing f xs = Inr ys \<longleftrightarrow> xs = [] \<and> ys = []"
proof (cases xs)
  case Nil
  then show ?thesis by auto
next
  case (Cons x xs')
  with assms [of x] show ?thesis
    by (auto split: sum.splits)
qed

lemma isValidPysonEntry_never: "isValidPysonEntry entry = False"
  using parsePysonEntry_throws [of entry]
  by (auto simp: isValidPysonEntry_def split: sum.splits)

subsection \<open>Round trip\<close>

text \<open>
  C1. The claim: for every valid NamedValue whose content has no newline and no \<open>(*)\<close>,
  parsing its encoding succeeds and gives the NamedValue back. The code does not do
  this. The NamedValue of name \<open>a\<close> holding the string \<open>hi\<close> is valid and encodes as
  \<open>a:str:hi\<close>, which \<open>parsePysonEntry\<close> rejects (it has no \<open>str\<close> case); the one
  holding the number \<open>5\<close> encodes as \<open>a:int:5\<close>, on which \<open>parsePysonEntry\<close> throws a
  \<open>TypeError\<close>; and the one holding the list \<open>x, y\<close> cannot be encoded at all. No line
  parses to any NamedValue.
\<close>

theorem roundtrip_fails:
  "Value_new (JStr ''hi'') = Inr \<lparr>payload = JStr ''hi'', vtype = \<lparr>tag = ''str''\<rparr>\<rparr>
   \<and> NamedValue_new (JStr ''a'') (Instance \<lparr>payload = JStr ''hi'', vtype = \<lparr>tag = ''str''\<rparr>\<rparr>)
       = Inr \<lparr>name = JStr ''a'', held = Instance \<lparr>payload = JStr ''hi'', vtype = \<lparr>tag = ''str''\<rparr>\<rparr>\<rparr>
   \<and> NamedValue_pysonStr digits
         \<lparr>name = JStr ''a'', held = Instance \<lparr>payload = JStr ''hi'', vtype = \<lparr>tag = ''str''\<rparr>\<rparr>\<rparr>
       = Inr ''a:str:hi''
   \<and> parsePysonEntry ''a:str:hi'' = Inl (Invalid_pyson_type (JStr ''str''))
   \<and> Value_new (JNum (Finite 5)) = Inr \<lparr>payload = JNum (Finite 5), vtype = \<lparr>tag = ''int''\<rparr>\<rparr>
   \<and> NamedValue_pysonStr digits
         \<lparr>name = JStr ''a'', held = Instance \<lparr>payload = JNum (Finite 5), vtype = \<lparr>tag = ''int''\<rparr>\<rparr>\<rparr>
       = Inr ''a:int:5''
   \<and> parsePysonEntry ''a:int:5'' = Inl (TypeError ''Assignment to constant variable.'')
   \<and> Value_new (JArr [JStr ''x'', JStr ''y''])
       = Inr \<lparr>payload = JArr [JStr ''x'', JStr ''y''], vtype = \<lparr>tag = ''list''\<rparr>\<rparr>
   \<and> NamedValue_pysonStr digits
         \<lparr>name = JStr ''a'',
          held = Instance \<lparr>payload = JArr [JStr ''x'', JStr ''y''], vtype = \<lparr>tag = ''list''\<rparr>\<rparr>\<rparr>
       = Inl (TypeError ''(*).join is not a function'')
   \<and> parsePysonEntry line \<noteq> Inr nv"
proof -
  have "parsePysonEntry line \<noteq> Inr nv"
    by (rule parsePysonEntry_throws)
  moreover have "Value_new (JStr ''hi'') = Inr \<lparr>payload = JStr ''hi'', vtype = \<lparr>tag = ''str''\<rparr>\<rparr>
   \<and> NamedValue_new (JStr ''a'') (Instance \<lparr>payload = JStr ''hi'', vtype = \<lparr>tag = ''str''\<rparr>\<rparr>)
       = Inr \<lparr>name = JStr ''a'', held = Instance \<lparr>payload = JStr ''hi'', vtype = \<lparr>tag = ''str''\<rparr>\<rparr>\<rparr>
   \<and> NamedValue_pysonStr digits
         \<lparr>name = JStr ''a'', held = Instance \<lparr>payload = JStr ''hi'', vtype = \<lparr>tag = ''str''\<rparr>\<rparr>\<rparr>
       = Inr ''a:str:hi''
   \<and> parsePysonEntry ''a:str:hi'' = Inl (Invalid_pyson_type (JStr ''str''))
   \<and> Value_new (JNum (Finite 5)) = Inr \<lparr>payload = JNum (Finite 5), vtype = \<lparr>tag = ''int''\<rparr>\<rparr>
   \<and> NamedValue_pysonStr digits
         \<lparr>name = JStr ''a'', held = Instance \<lparr>payload = JNum (Finite 5), vtype = \<lparr>tag = ''int''\<rparr>\<rparr>\<rparr>
       = Inr ''a:int:5''
   \<and> parsePysonEntry ''a:int:5'' = Inl (TypeError ''Assignment to constant variable.'')
   \<and> Value_new (JArr [JStr ''x'', JStr ''y''])
       = Inr \<lparr>payload = JArr [JStr ''x'', JStr ''y''], vtype = \<lparr>tag = ''list''\<rparr>\<rparr>
   \<and> NamedValue_pysonStr digits
         \<lparr>name = JStr ''a'',
          held = Instance \<lparr>payload = JArr [JStr ''x'', JStr ''y''], vtype = \<lparr>tag = ''list''\<rparr>\<rparr>\<rparr>
       = Inl (TypeError ''(*).join is not a function'')"
    by code_simp
  ultimately show ?thesis
    by blast
qed

theorem roundtrip_fails_witness:
  "typeof (JStr ''a'') = ''string''
   \<and> instanceof_Value (Instance \<lparr>payload = JStr ''hi'', vtype = \<lparr>tag = ''str''\<rparr>\<rparr>)
   \<and> NamedValue_new (JStr ''a'') (Instance \<lparr>payload = JStr ''hi'', vtype = \<lparr>tag = ''str''\<rparr>\<rparr>)
       = Inr \<lparr>name = JStr ''a'', held = Instance \<lparr>payload = JStr ''hi'', vtype = \<lparr>tag = ''str''\<rparr>\<rparr>\<rparr>
   \<and> NamedValue_pysonStr (\<lambda>q. [])
         \<lparr>name = JStr ''a'', held = Instance \<lparr>payload = JStr ''hi'', vtype = \<lparr>tag = ''str''\<rparr>\<rparr>\<rparr>
       = Inr ''a:str:hi''
   \<and> parsePysonEntry ''a:str:hi'' = Inl (Invalid_pyson_type (JStr ''str''))"
proof -
  have t: "typeof (JStr ''a'') = ''string''"
    by simp
  have i: "instanceof_Value (Instance \<lparr>payload = JStr ''hi'', vtype = \<lparr>tag = ''str''\<rparr>\<rparr>)"
    by simp
  from t i roundtrip_fails [of "\<lambda>q. []" "''a:str:hi''"] show ?thesis
    by blast
qed

subsection \<open>Splitting a line\<close>

text \<open>
  C2. The claim: a line is split into three fields on its first two colons, the third
  field keeping any further colon, and a line with fewer than three fields fails as
  malformed. The code asks \<open>split\<close> for at most two pieces, so the third variable is
  \<open>undefined\<close> for every line: of a line \<open>n:t:rest\<close> only \<open>n\<close> and \<open>t\<close> are kept,
  of \<open>a:str:b:c\<close> only \<open>a\<close> and \<open>str\<close>, and the content \<open>b:c\<close> is lost. A \<open>list\<close> line then throws a \<open>TypeError\<close> on reading
  \<open>split\<close> of \<open>undefined\<close>, and a line without a colon is reported as an invalid
  type \<open>undefined\<close>, there being no check of the number of fields.
\<close>

theorem split_limit_loses_content:
  "(CHR '':'' \<notin> set n \<and> CHR '':'' \<notin> set t \<longrightarrow>
      String_split_limit (n @ '':'' @ t @ '':'' @ rest) '':'' 2 = [n, t])
   \<and> String_split_limit ''a:str:b:c'' '':'' 2 = [''a'', ''str'']
   \<and> element (String_split_limit ''a:str:b:c'' '':'' 2) 2 = None
   \<and> element (String_split_limit entry '':'' 2) 2 = None
   \<and> parsePysonEntry ''a:list:x:y''
       = Inl (TypeError ''Cannot read properties of undefined (reading split)'')
   \<and> parsePysonEntry ''noColonsHere'' = Inl (Invalid_pyson_type JUndefined)"
proof -
  have "String_split_limit ''a:str:b:c'' '':'' 2 = [''a'', ''str'']"
    by code_simp
  moreover have "parsePysonEntry ''a:list:x:y''
      = Inl (TypeError ''Cannot read properties of undefined (reading split)'')"
    by code_simp
  moreover have "parsePysonEntry ''noColonsHere'' = Inl (Invalid_pyson_type JUndefined)"
    by code_simp
  moreover have "CHR '':'' \<notin> set n \<and> CHR '':'' \<notin> set t \<longrightarrow>
      String_split_limit (n @ '':'' @ t @ '':'' @ rest) '':'' 2 = [n, t]"
    using split_two_fields [of n t rest] by blast
  ultimately show ?thesis
    using third_field_undefined [of "''a:str:b:c''" "'':''"] third_field_undefined [of entry "'':''"]
    by blast
qed

theorem split_limit_loses_content_witness:
  "CHR '':'' \<notin> set ''a''
   \<and> CHR '':'' \<notin> set ''list''
   \<and> String_split_limit (''a'' @ '':'' @ ''list'' @ '':'' @ ''x:y'') '':'' 2 = [''a'', ''list'']
   \<and> element (String_split_limit (''a'' @ '':'' @ ''list'' @ '':'' @ ''x:y'') '':'' 2) 2 = None"
proof -
  have n: "CHR '':'' \<notin> set ''a''" and t: "CHR '':'' \<notin> set ''list''"
    by simp_all
  from n t
    split_limit_loses_content [of "''a''" "''list''" "''x:y''"
      "''a'' @ '':'' @ ''list'' @ '':'' @ ''x:y''"]
  show ?thesis
    by blast
qed

subsection \<open>The tag str\<close>

text \<open>
  C3. The claim: a line whose type tag is \<open>str\<close> parses to a NamedValue holding the raw
  text. The \<open>switch\<close> of the code has no case for \<open>str\<close>: the tag falls to the
  \<open>default\<close> branch, whatever the content, and \<open>a:str:hello\<close> is rejected as an
  invalid type.
\<close>

theorem str_tag_rejected:
  "(CHR 0x0A \<notin> set n \<and> CHR 0x0A \<notin> set raw \<and> CHR '':'' \<notin> set n \<longrightarrow>
      parsePysonEntry (n @ '':str:'' @ raw) = Inl (Invalid_pyson_type (JStr ''str'')))
   \<and> switch_type (Some ''str'') val = Inl (Invalid_pyson_type (JStr ''str''))
   \<and> parsePysonEntry ''a:str:hello'' = Inl (Invalid_pyson_type (JStr ''str''))"
proof -
  have "parsePysonEntry ''a:str:hello'' = Inl (Invalid_pyson_type (JStr ''str''))"
    by code_simp
  moreover have "switch_type (Some ''str'') val = Inl (Invalid_pyson_type (JStr ''str''))"
    by (simp add: switch_type_def)
  moreover have "CHR 0x0A \<notin> set n \<and> CHR 0x0A \<notin> set raw \<and> CHR '':'' \<notin> set n \<longrightarrow>
      parsePysonEntry (n @ '':str:'' @ raw) = Inl (Invalid_pyson_type (JStr ''str''))"
    using str_line_rejected [of n raw] by blast
  ultimately show ?thesis
    by blast
qed

theorem str_tag_rejected_witness:
  "CHR 0x0A \<notin> set ''greeting''
   \<and> CHR 0x0A \<notin> set ''hello: world''
   \<and> CHR '':'' \<notin> set ''greeting''
   \<and> parsePysonEntry (''greeting'' @ '':str:'' @ ''hello: world'')
       = Inl (Invalid_pyson_type (JStr ''str''))"
proof -
  have a: "CHR 0x0A \<notin> set ''greeting''" and b: "CHR 0x0A \<notin> set ''hello: world''"
    and c: "CHR '':'' \<notin> set ''greeting''"
    by simp_all
  from a b c str_tag_rejected [of "''greeting''" "''hello: world''"] show ?thesis
    by blast
qed

subsection \<open>Encoding a list\<close>

text \<open>
  C4. The claim: the bare encoding of a list Value is its elements joined by \<open>(*)\<close>, so
  that the list \<open>x, y, z\<close> encodes as \<open>x(*)y(*)z\<close>. In the code the encoding of every
  Value that holds an array throws a \<open>TypeError\<close>, because it calls \<open>join\<close> on the
  delimiter string; no list is ever encoded.
\<close>

theorem list_encoding_throws:
  "Value_new (JArr [JStr ''x'', JStr ''y'', JStr ''z''])
     = Inr \<lparr>payload = JArr [JStr ''x'', JStr ''y'', JStr ''z''], vtype = \<lparr>tag = ''list''\<rparr>\<rparr>
   \<and> Value_pysonStr digits
         \<lparr>payload = JArr [JStr ''x'', JStr ''y'', JStr ''z''], vtype = \<lparr>tag = ''list''\<rparr>\<rparr>
       = Inl (TypeError ''(*).join is not a function'')
   \<and> Value_pysonStr digits \<lparr>payload = JArr items, vtype = t\<rparr>
       = Inl (TypeError ''(*).join is not a function'')"
  by (simp add: Value_pysonStr_def Type_new_tags)

subsection \<open>Documents and duplicate names\<close>

text \<open>
  C5. The claim: the document of the two lines \<open>a:int:1\<close> and \<open>b:int:2\<close> parses to
  two entries in order, the document of \<open>a:int:1\<close> and \<open>a:int:2\<close> fails for its
  duplicate name, and in general a document whose lines parse fails for a duplicate name
  exactly when a name repeats. In the code both documents fail alike, before any name is
  compared, with the \<open>TypeError\<close> that \<open>parsePysonEntry\<close> throws on their first line;
  no document parses to a list that has an entry.
\<close>

theorem pysonToList_throws_on_entries:
  "pysonToList (''a:int:1'' @ [CHR 0x0A] @ ''b:int:2'')
     = Inl (TypeError ''Assignment to constant variable.'')
   \<and> pysonToList (''a:int:1'' @ [CHR 0x0A] @ ''a:int:2'')
     = Inl (TypeError ''Assignment to constant variable.'')
   \<and> pysonToList data \<noteq> Inr (nv # rest)"
proof -
  have "pysonToList data \<noteq> Inr (nv # rest)"
    using map_throwing_never [of parsePysonEntry, OF parsePysonEntry_throws]
    by (auto simp: pysonToList_def split: sum.splits if_splits)
  moreover have "pysonToList (''a:int:1'' @ [CHR 0x0A] @ ''b:int:2'')
     = Inl (TypeError ''Assignment to constant variable.'')
   \<and> pysonToList (''a:int:1'' @ [CHR 0x0A] @ ''a:int:2'')
     = Inl (TypeError ''Assignment to constant variable.'')"
    by code_simp
  ultimately show ?thesis
    by blast
qed

subsection \<open>Validating a document\<close>

text \<open>
  C6. The claim: the document of the lines \<open>a:int:1\<close> and \<open>a:int:2\<close> is valid for
  \<open>isValidPyson\<close> although it has a duplicate name, a document being valid exactly when
  each of its lines is empty or a valid entry. In the code \<open>isValidPyson\<close> is that test
  of every line, but \<open>isValidPysonEntry\<close> accepts no line, \<open>a:int:1\<close> included, since
  \<open>parsePysonEntry\<close> always throws: the document is reported invalid, as is every
  document that has a line that is not empty.
\<close>

theorem isValidPyson_rejects_valid_lines:
  "isValidPysonEntry ''a:int:1'' = False
   \<and> isValidPysonEntry ''a:int:2'' = False
   \<and> isValidPyson (''a:int:1'' @ [CHR 0x0A] @ ''a:int:2'') = False
   \<and> isValidPyson data = list_all (\<lambda>line. line = []) (String_split data [CHR 0x0A])"
proof -
  have "isValidPyson data = list_all (\<lambda>line. line = []) (String_split data [CHR 0x0A])"
    by (simp add: isValidPyson_def isValidPysonEntry_never)
  moreover have "isValidPysonEntry ''a:int:1'' = False
   \<and> isValidPysonEntry ''a:int:2'' = False
   \<and> isValidPyson (''a:int:1'' @ [CHR 0x0A] @ ''a:int:2'') = False"
    by code_simp
  ultimately show ?thesis
    by blast
qed

subsection \<open>Numerals that do not parse\<close>

text \<open>
  C7. The claim: \<open>a:int:notanumber\<close> fails as an invalid number, and so does every
  \<open>int\<close> or \<open>float\<close> line whose content is not a numeral. In the code every line
  \<open>n:int:raw\<close> and every line \<open>n:float:raw\<close> fails in one and the same way, whatever
  \<open>raw\<close> is: the content never reaches \<open>parseInt\<close> or \<open>parseFloat\<close>, which are
  applied to \<open>undefined\<close>, and the assignment of their result to the constant \<open>value\<close>
  throws a \<open>TypeError\<close>. The failure of \<open>a:int:notanumber\<close> is that of \<open>a:int:12\<close>
  and says nothing of the numeral.
\<close>

theorem number_lines_throw_TypeError:
  "(CHR 0x0A \<notin> set n \<and> CHR 0x0A \<notin> set raw \<and> CHR '':'' \<notin> set n \<longrightarrow>
      parsePysonEntry (n @ '':int:'' @ raw) = Inl (TypeError ''Assignment to constant variable.'')
      \<and> parsePysonEntry (n @ '':float:'' @ raw)
          = Inl (TypeError ''Assignment to constant variable.''))
   \<and> parsePysonEntry ''a:int:notanumber'' = Inl (TypeError ''Assignment to constant variable.'')
   \<and> parsePysonEntry ''a:int:12'' = Inl (TypeError ''Assignment to constant variable.'')
   \<and> parsePysonEntry ''a:float:notanumber'' = Inl (TypeError ''Assignment to constant variable.'')
   \<and> parsePysonEntry ''a:float:1.5'' = Inl (TypeError ''Assignment to constant variable.'')
   \<and> switch_type (Some ''int'') None = Inl (TypeError ''Assignment to constant variable.'')
   \<and> switch_type (Some ''float'') None = Inl (TypeError ''Assignment to constant variable.'')"
proof -
  have general: "parsePysonEntry (n @ '':int:'' @ raw)
        = Inl (TypeError ''Assignment to constant variable.'')
      \<and> parsePysonEntry (n @ '':float:'' @ raw)
        = Inl (TypeError ''Assignment to constant variable.'')"
    if "CHR 0x0A \<notin> set n \<and> CHR 0x0A \<notin> set raw \<and> CHR '':'' \<notin> set n"
    using that int_line_throws [of n raw] float_line_throws [of n raw] by blast
  have concrete: "parsePysonEntry ''a:int:notanumber''
        = Inl (TypeError ''Assignment to constant variable.'')
      \<and> parsePysonEntry ''a:int:12'' = Inl (TypeError ''Assignment to constant variable.'')
      \<and> parsePysonEntry ''a:float:notanumber''
        = Inl (TypeError ''Assignment to constant variable.'')
      \<and> parsePysonEntry ''a:float:1.5'' = Inl (TypeError ''Assignment to constant variable.'')"
    by code_simp
  have switch: "switch_type (Some ''int'') None
        = Inl (TypeError ''Assignment to constant variable.'')
      \<and> switch_type (Some ''float'') None
        = Inl (TypeError ''Assignment to constant variable.'')"
    by (simp add: switch_type_def assign_const_def)
  from general concrete switch show ?thesis
    by blast
qed

theorem number_lines_throw_TypeError_witness:
  "CHR 0x0A \<notin> set ''a''
   \<and> CHR 0x0A \<notin> set ''notanumber''
   \<and> CHR '':'' \<notin> set ''a''
   \<and> parsePysonEntry (''a'' @ '':int:'' @ ''notanumber'')
       = Inl (TypeError ''Assignment to constant variable.'')
   \<and> parsePysonEntry (''a'' @ '':float:'' @ ''notanumber'')
       = Inl (TypeError ''Assignment to constant variable.'')"
proof -
  have a: "CHR 0x0A \<notin> set ''a''" and b: "CHR 0x0A \<notin> set ''notanumber''"
    and c: "CHR '':'' \<notin> set ''a''"
    by simp_all
  from a b c number_lines_throw_TypeError [of "''a''" "''notanumber''"] show ?thesis
    by blast
qed

subsection \<open>Classification of a payload\<close>

text \<open>
  C8. The construction of a Value classifies its payload by shape: \<open>5\<close> is an Int,
  \<open>5.5\<close> a Float, \<open>5.0\<close> (the same number as \<open>5\<close>) an Int, as is every number that
  \<open>Number.isInteger\<close> accepts; a string is a Str; an array of strings is a List; and an
  array with an element that is not a string is refused.
\<close>

theorem Value_new_classifies:
  "Value_new (JNum (Finite 5)) = Inr \<lparr>payload = JNum (Finite 5), vtype = \<lparr>tag = ''int''\<rparr>\<rparr>
   \<and> Value_new (JNum (Finite (11 / 2)))
       = Inr \<lparr>payload = JNum (Finite (11 / 2)), vtype = \<lparr>tag = ''float''\<rparr>\<rparr>
   \<and> (Number_isInteger (JNum n) \<longrightarrow>
        Value_new (JNum n) = Inr \<lparr>payload = JNum n, vtype = \<lparr>tag = ''int''\<rparr>\<rparr>)
   \<and> Value_new (JStr s) = Inr \<lparr>payload = JStr s, vtype = \<lparr>tag = ''str''\<rparr>\<rparr>
   \<and> ((\<forall>x \<in> set strs. typeof x = ''string'') \<longrightarrow>
        Value_new (JArr strs) = Inr \<lparr>payload = JArr strs, vtype = \<lparr>tag = ''list''\<rparr>\<rparr>)
   \<and> ((\<exists>x \<in> set items. typeof x \<noteq> ''string'') \<longrightarrow>
        Value_new (JArr items) = Inl Lists_must_contain_only_strings)"
proof -
  have five: "Value_new (JNum (Finite 5))
      = Inr \<lparr>payload = JNum (Finite 5), vtype = \<lparr>tag = ''int''\<rparr>\<rparr>"
    by code_simp
  have half: "Value_new (JNum (Finite (11 / 2)))
      = Inr \<lparr>payload = JNum (Finite (11 / 2)), vtype = \<lparr>tag = ''float''\<rparr>\<rparr>"
    by code_simp
  have int: "Number_isInteger (JNum n) \<longrightarrow>
      Value_new (JNum n) = Inr \<lparr>payload = JNum n, vtype = \<lparr>tag = ''int''\<rparr>\<rparr>"
    by (simp add: Value_new_number del: Value_new.simps Number_isInteger.simps)
  have str: "Value_new (JStr s) = Inr \<lparr>payload = JStr s, vtype = \<lparr>tag = ''str''\<rparr>\<rparr>"
    by (simp add: Type_new_tags)
  have list: "(\<forall>x \<in> set strs. typeof x = ''string'') \<longrightarrow>
      Value_new (JArr strs) = Inr \<lparr>payload = JArr strs, vtype = \<lparr>tag = ''list''\<rparr>\<rparr>"
    by (simp add: Type_new_tags list_ex_iff)
  have bad: "(\<exists>x \<in> set items. typeof x \<noteq> ''string'') \<longrightarrow>
      Value_new (JArr items) = Inl Lists_must_contain_only_strings"
    by (simp add: list_ex_iff)
  from five half int str list bad show ?thesis
    by blast
qed

theorem Value_new_classifies_witness:
  "Number_isInteger (JNum (Finite 5))
   \<and> Value_new (JNum (Finite 5)) = Inr \<lparr>payload = JNum (Finite 5), vtype = \<lparr>tag = ''int''\<rparr>\<rparr>
   \<and> Value_new (JStr ''x'') = Inr \<lparr>payload = JStr ''x'', vtype = \<lparr>tag = ''str''\<rparr>\<rparr>
   \<and> typeof (JStr ''x'') = ''string''
   \<and> typeof (JStr ''y'') = ''string''
   \<and> Value_new (JArr [JStr ''x'', JStr ''y''])
       = Inr \<lparr>payload = JArr [JStr ''x'', JStr ''y''], vtype = \<lparr>tag = ''list''\<rparr>\<rparr>
   \<and> typeof (JNum (Finite 1)) \<noteq> ''string''
   \<and> Value_new (JArr [JStr ''x'', JNum (Finite 1)]) = Inl Lists_must_contain_only_strings"
proof -
  have n: "Number_isInteger (JNum (Finite 5))"
    by simp
  have l: "\<forall>x \<in> set [JStr ''x'', JStr ''y'']. typeof x = ''string''"
    by simp
  have b: "\<exists>x \<in> set [JStr ''x'', JNum (Finite 1)]. typeof x \<noteq> ''string''"
    by simp
  have tx: "typeof (JStr ''x'') = ''string''" and ty: "typeof (JStr ''y'') = ''string''"
    and tn: "typeof (JNum (Finite 1)) \<noteq> ''string''"
    by simp_all
  from n l b tx ty tn
    Value_new_classifies [of "Finite 5" "''x''" "[JStr ''x'', JStr ''y'']"
      "[JStr ''x'', JNum (Finite 1)]"]
  show ?thesis
    by blast
qed

subsection \<open>Swapping the value\<close>

text \<open>
  C9. The claim: \<open>swapValue\<close> validates its argument as \<open>changeValue\<close> does, failing
  and leaving the NamedValue unchanged when the argument is not a Value. In the code
  \<open>swapValue\<close> has no such check: given the plain string \<open>x\<close>, which \<open>changeValue\<close>
  refuses, it stores it in place of the Value and returns the previous content.
\<close>

theorem swapValue_not_validated:
  "changeValue nv (Plain (JStr ''x'')) = Inl Invalid_argument_for_changeValue
   \<and> swapValue nv (Plain (JStr ''x'')) = (held nv, nv\<lparr>held := Plain (JStr ''x'')\<rparr>)
   \<and> held (snd (swapValue nv (Plain p))) = Plain p"
  by (simp add: changeValue_def swapValue_def)

subsection \<open>Numbers that are not integers\<close>

text \<open>
  C10. Every number that \<open>Number.isInteger\<close> rejects is accepted by the construction of
  a Value and classified as a Float: \<open>isFloat\<close> holds and the type tag is \<open>float\<close>.
  \<open>NaN\<close>, \<open>Infinity\<close> and \<open>-Infinity\<close> are such numbers.
\<close>

theorem non_integer_is_float:
  "(\<not> Number_isInteger (JNum n) \<longrightarrow>
      Value_new (JNum n) = Inr \<lparr>payload = JNum n, vtype = \<lparr>tag = ''float''\<rparr>\<rparr>
      \<and> isFloat \<lparr>payload = JNum n, vtype = \<lparr>tag = ''float''\<rparr>\<rparr>
      \<and> typeStr \<lparr>payload = JNum n, vtype = \<lparr>tag = ''float''\<rparr>\<rparr> = ''float'')
   \<and> \<not> Number_isInteger (JNum NaN)
   \<and> \<not> Number_isInteger (JNum PosInfinity)
   \<and> \<not> Number_isInteger (JNum NegInfinity)"
  by (simp add: Value_new_number isFloat_def typeStr_def Type_toString_def
      del: Value_new.simps)

theorem non_integer_is_float_witness:
  "\<not> Number_isInteger (JNum NaN)
   \<and> Value_new (JNum NaN) = Inr \<lparr>payload = JNum NaN, vtype = \<lparr>tag = ''float''\<rparr>\<rparr>
   \<and> isFloat \<lparr>payload = JNum NaN, vtype = \<lparr>tag = ''float''\<rparr>\<rparr>
   \<and> typeStr \<lparr>payload = JNum NaN, vtype = \<lparr>tag = ''float''\<rparr>\<rparr> = ''float''"
proof -
  have h: "\<not> Number_isInteger (JNum NaN)"
    by simp
  from h non_integer_is_float [of NaN] show ?thesis
    by blast
qed

end
